theory Spec2Isabelle
  imports Complex_Main
begin

section \<open>CURA360 wounds module: automatic clinical-stage evaluation\<close>

text \<open>
  This theory embeds the stage evaluator of the wounds module
  (\<^verbatim>\<open>evaluateStage\<close>, \<^verbatim>\<open>updateStage\<close>, \<^verbatim>\<open>_showsImprovement\<close>,
  \<^verbatim>\<open>_noImprovement\<close>, \<^verbatim>\<open>getById\<close>) and the treatment read it calls
  (\<^verbatim>\<open>treatments.listByWound\<close>).

  The rows come from the hosted database as JSON, so every optional column is either
  \<^verbatim>\<open>null\<close> (\<open>None\<close>) or a value of the column's type. Text columns
  (\<^verbatim>\<open>clinical_stage\<close>, \<^verbatim>\<open>infection_signs\<close>, \<^verbatim>\<open>exudate_amount\<close>) are strings;
  numeric columns are finite numbers, modelled as rationals: the evaluator only compares
  them with the constants 0, 1, 2, 4, 5, 6, 7 and 8, and on finite numbers such a
  comparison is the comparison of the rationals they denote. \<^verbatim>\<open>created_at\<close> is a
  mandatory timestamp, modelled as the integer number of milliseconds that
  \<^verbatim>\<open>new Date(wound.created_at)\<close> denotes.
\<close>

subsection \<open>Rows\<close>

record wound =
  w_id :: string
  created_at :: int
  clinical_stage :: "string option"
  infection_signs :: "string option"
  pain_scale :: "rat option"
  exudate_amount :: "string option"
  length_cm :: "rat option"
  width_cm :: "rat option"

record treatment =
  t_id :: string
  t_wound_id :: string
  t_created_at :: int

subsection \<open>JavaScript coercions used by the rules\<close>

text \<open>
  \<^verbatim>\<open>!x\<close> and \<^verbatim>\<open>x && ...\<close> test truthiness: \<^verbatim>\<open>null\<close> and the empty string are
  falsy and every other string is truthy; \<^verbatim>\<open>null\<close> and the number 0 are falsy and
  every other finite number is truthy.
\<close>

definition truthy_str :: "string option \<Rightarrow> bool" where
  "truthy_str v = (case v of None \<Rightarrow> False | Some s \<Rightarrow> s \<noteq> [])"

definition truthy_num :: "rat option \<Rightarrow> bool" where
  "truthy_num v = (case v of None \<Rightarrow> False | Some x \<Rightarrow> x \<noteq> 0)"

text \<open>A relational operator converts \<^verbatim>\<open>null\<close> to the number 0.\<close>

definition to_number :: "rat option \<Rightarrow> rat" where
  "to_number v = (case v of None \<Rightarrow> 0 | Some x \<Rightarrow> x)"

subsection \<open>The backend and its failures\<close>

text \<open>
  The two tables the evaluator touches. The wounds module reaches them through
  \<^verbatim>\<open>window.supabase\<close> and the treatments module through
  \<^verbatim>\<open>window.CURA360.supabase\<close>; both are taken to be a client of the hosted
  database. Whether a request to the backend fails is not decided by the program: the
  three flags of \<open>conditions\<close> say, for one evaluation, which requests come back
  with an error, and \<open>today\<close> is the instant \<^verbatim>\<open>new Date()\<close> reads, in
  milliseconds.
\<close>

record backend =
  wounds_table :: "wound list"
  treatments_table :: "treatment list"

record conditions =
  today :: int
  wounds_select_error :: bool
  treatments_select_error :: bool
  wounds_update_error :: bool

subsection \<open>Reads\<close>

text \<open>
  \<^verbatim>\<open>from('wounds').select('*').eq('id', woundId).single()\<close>: an error unless exactly
  one row matches. \<^verbatim>\<open>getById\<close> catches every error and returns \<^verbatim>\<open>null\<close>.
\<close>

definition getById :: "conditions \<Rightarrow> backend \<Rightarrow> string \<Rightarrow> wound option" where
  "getById c b woundId =
     (if wounds_select_error c then None
      else case filter (\<lambda>w. w_id w = woundId) (wounds_table b) of
             [w] \<Rightarrow> Some w
           | _ \<Rightarrow> None)"

text \<open>
  \<^verbatim>\<open>from('treatments').select('*').eq('wound_id', woundId).order('created_at',
  {ascending: false})\<close>. \<^verbatim>\<open>listByWound\<close> catches every error and returns the empty
  array.
\<close>

definition listByWound :: "conditions \<Rightarrow> backend \<Rightarrow> string \<Rightarrow> treatment list" where
  "listByWound c b woundId =
     (if treatments_select_error c then []
      else rev (sort_key t_created_at
                  (filter (\<lambda>t. t_wound_id t = woundId) (treatments_table b))))"

subsection \<open>The stage write\<close>

text \<open>
  \<^verbatim>\<open>from('wounds').update({ clinical_stage: newStage }).eq('id', woundId)\<close>; on an
  error \<^verbatim>\<open>updateStage\<close> logs it and returns \<^verbatim>\<open>false\<close>, otherwise \<^verbatim>\<open>true\<close>.
\<close>

definition updateStage ::
  "conditions \<Rightarrow> backend \<Rightarrow> string \<Rightarrow> string option \<Rightarrow> bool \<times> backend" where
  "updateStage c b woundId newStage =
     (if wounds_update_error c then (False, b)
      else (True,
            b\<lparr>wounds_table :=
                 map (\<lambda>w. if w_id w = woundId then w\<lparr>clinical_stage := newStage\<rparr> else w)
                     (wounds_table b)\<rparr>))"

subsection \<open>The helpers\<close>

definition showsImprovement :: "wound \<Rightarrow> treatment list \<Rightarrow> bool" where
  "showsImprovement wound treatments =
     (if length treatments < 2 then False
      else if exudate_amount wound = Some ''escaso'' \<or> exudate_amount wound = Some ''moderado''
        then True
      else if pain_scale wound \<noteq> None \<and> to_number (pain_scale wound) \<le> 4 then True
      else if truthy_num (length_cm wound) \<and> truthy_num (width_cm wound)
              \<and> to_number (length_cm wound) < 5 \<and> to_number (width_cm wound) < 5
        then True
      else False)"

definition noImprovement :: "wound \<Rightarrow> treatment list \<Rightarrow> bool" where
  "noImprovement wound treatments =
     (if exudate_amount wound = Some ''abundante'' then True
      else if truthy_num (pain_scale wound) \<and> to_number (pain_scale wound) > 6 then True
      else if truthy_num (length_cm wound) \<and> truthy_num (width_cm wound)
              \<and> (to_number (length_cm wound) > 8 \<or> to_number (width_cm wound) > 8)
        then True
      else False)"

subsection \<open>The rule cascade\<close>

text \<open>
  \<^verbatim>\<open>Math.floor((today - createdDate) / (1000 * 60 * 60 * 24))\<close>; \<open>div\<close> on \<open>int\<close>
  rounds towards minus infinity, as \<^verbatim>\<open>Math.floor\<close> does.
\<close>

definition daysSinceCreation :: "wound \<Rightarrow> int \<Rightarrow> int" where
  "daysSinceCreation wound now = (now - created_at wound) div (1000 * 60 * 60 * 24)"

text \<open>
  The conditions of the five rules, in the order of the \<^verbatim>\<open>if\<close>/\<^verbatim>\<open>else if\<close>
  chain; \<^verbatim>\<open>treatmentCount\<close> is \<^verbatim>\<open>treatments.length\<close>.
\<close>

definition rule1 :: "wound \<Rightarrow> treatment list \<Rightarrow> int \<Rightarrow> bool" where
  "rule1 wound treatments days =
     (let treatmentCount = length treatments
      in treatmentCount = 0 \<and> days < 1)"

definition rule2 :: "wound \<Rightarrow> treatment list \<Rightarrow> int \<Rightarrow> bool" where
  "rule2 wound treatments days =
     (let treatmentCount = length treatments
      in treatmentCount \<ge> 1 \<and> treatmentCount \<le> 3 \<and> \<not> truthy_str (infection_signs wound))"

definition rule3 :: "wound \<Rightarrow> treatment list \<Rightarrow> int \<Rightarrow> bool" where
  "rule3 wound treatments days =
     (let treatmentCount = length treatments
      in infection_signs wound = Some ''si''
         \<or> (truthy_num (pain_scale wound) \<and> to_number (pain_scale wound) > 7)
         \<or> (days > 14 \<and> treatmentCount > 5 \<and> noImprovement wound treatments))"

definition rule4 :: "wound \<Rightarrow> treatment list \<Rightarrow> int \<Rightarrow> bool" where
  "rule4 wound treatments days =
     (let treatmentCount = length treatments
      in treatmentCount > 3
         \<and> \<not> truthy_str (infection_signs wound)
         \<and> (pain_scale wound = None \<or> to_number (pain_scale wound) \<le> 5)
         \<and> showsImprovement wound treatments)"

definition rule5 :: "wound \<Rightarrow> treatment list \<Rightarrow> int \<Rightarrow> bool" where
  "rule5 wound treatments days =
     (truthy_num (length_cm wound) \<and> truthy_num (width_cm wound)
      \<and> to_number (length_cm wound) < 1 \<and> to_number (width_cm wound) < 1
      \<and> exudate_amount wound = Some ''escaso''
      \<and> (\<not> truthy_num (pain_scale wound) \<or> to_number (pain_scale wound) \<le> 2)
      \<and> infection_signs wound \<noteq> Some ''si'')"

text \<open>
  The value of the variable \<^verbatim>\<open>newStage\<close> after the chain: it starts as the stored
  stage and the first rule whose condition holds overwrites it.
\<close>

definition newStage :: "wound \<Rightarrow> treatment list \<Rightarrow> int \<Rightarrow> string option" where
  "newStage wound treatments now =
     (let days = daysSinceCreation wound now
      in if rule1 wound treatments days then Some ''valoracion_inicial''
         else if rule2 wound treatments days then Some ''tratamiento_en_curso''
         else if rule3 wound treatments days then Some ''bajo_observacion''
         else if rule4 wound treatments days then Some ''evolucion_favorable''
         else if rule5 wound treatments days then Some ''alta_clinica''
         else clinical_stage wound)"

subsection \<open>evaluateStage\<close>

text \<open>
  What one call leaves behind: the value it returns (\<open>None\<close> is \<^verbatim>\<open>null\<close>), the
  backend afterwards, and the calls of \<^verbatim>\<open>updateStage\<close> it made, with their arguments.
\<close>

record outcome =
  returned :: "string option"
  backend_after :: backend
  stage_writes :: "(string \<times> string option) list"

text \<open>
  Once the wound is read nothing in the body throws: \<^verbatim>\<open>listByWound\<close> and
  \<^verbatim>\<open>updateStage\<close> catch their own errors, and the result of \<^verbatim>\<open>updateStage\<close> is
  ignored. So the outer \<^verbatim>\<open>catch\<close> has no branch here.
\<close>

definition evaluateStage :: "conditions \<Rightarrow> backend \<Rightarrow> string \<Rightarrow> outcome" where
  "evaluateStage c b woundId =
     (case getById c b woundId of
        None \<Rightarrow> \<lparr>returned = None, backend_after = b, stage_writes = []\<rparr>
      | Some wound \<Rightarrow>
          let treatments = listByWound c b woundId;
              stage = newStage wound treatments (today c)
          in if stage \<noteq> clinical_stage wound
             then \<lparr>returned = stage,
                   backend_after = snd (updateStage c b woundId stage),
                   stage_writes = [(woundId, stage)]\<rparr>
             else \<lparr>returned = stage, backend_after = b, stage_writes = []\<rparr>)"

subsection \<open>Sample rows and conditions\<close>

text \<open>
  Concrete inputs on which the evaluator is run below. \<open>plain_wound\<close> is a wound as
  \<^verbatim>\<open>create\<close> stores it when the form leaves every optional field empty.
\<close>

definition all_requests_succeed :: "int \<Rightarrow> conditions" where
  "all_requests_succeed now =
     \<lparr>today = now, wounds_select_error = False, treatments_select_error = False,
      wounds_update_error = False\<rparr>"

definition plain_wound :: wound where
  "plain_wound =
     \<lparr>w_id = ''w1'', created_at = 0, clinical_stage = Some ''valoracion_inicial'',
      infection_signs = None, pain_scale = None, exudate_amount = None,
      length_cm = None, width_cm = None\<rparr>"

definition two_treatments :: "treatment list" where
  "two_treatments =
     [\<lparr>t_id = ''t1'', t_wound_id = ''w1'', t_created_at = 1000\<rparr>,
      \<lparr>t_id = ''t2'', t_wound_id = ''w1'', t_created_at = 2000\<rparr>]"

definition fresh_infected_wound :: wound where
  "fresh_infected_wound =
     plain_wound\<lparr>infection_signs := Some ''si'', clinical_stage := Some ''bajo_observacion''\<rparr>"


definition wound_marked_no :: wound where
  "wound_marked_no = plain_wound\<lparr>infection_signs := Some ''no''\<rparr>"

definition treated_wound :: wound where
  "treated_wound = plain_wound\<lparr>clinical_stage := Some ''tratamiento_en_curso''\<rparr>"

definition closed_wound :: wound where
  "closed_wound =
     plain_wound\<lparr>clinical_stage := Some ''evolucion_favorable'', length_cm := Some 0,
       width_cm := Some 0, exudate_amount := Some ''escaso'', pain_scale := Some 1\<rparr>"

definition small_wound :: wound where
  "small_wound = closed_wound\<lparr>length_cm := Some (1 / 2), width_cm := Some (1 / 2)\<rparr>"

definition long_narrow_wound :: wound where
  "long_narrow_wound = plain_wound\<lparr>length_cm := Some 9, width_cm := Some 0\<rparr>"

definition treatments_read_fails :: "int \<Rightarrow> conditions" where
  "treatments_read_fails now = (all_requests_succeed now)\<lparr>treatments_select_error := True\<rparr>"

definition stage_write_fails :: "int \<Rightarrow> conditions" where
  "stage_write_fails now = (all_requests_succeed now)\<lparr>wounds_update_error := True\<rparr>"

subsection \<open>The specification's reading of the no-improvement helper\<close>

text \<open>
  The helper as the specification words it, to be compared with \<open>noImprovement\<close>:
  true if the exudate is \<open>abundante\<close>, or the pain scale is greater than 6, or, when
  both measurements are present, the length or the width is greater than 8. A
  measurement is present when it is not \<^verbatim>\<open>null\<close>.
\<close>

definition noImprovement_spec :: "wound \<Rightarrow> treatment list \<Rightarrow> bool" where
  "noImprovement_spec wound treatments =
     (exudate_amount wound = Some ''abundante''
      \<or> (case pain_scale wound of None \<Rightarrow> False | Some p \<Rightarrow> p > 6)
      \<or> (case (length_cm wound, width_cm wound) of
            (Some l, Some w) \<Rightarrow> l > 8 \<or> w > 8
          | _ \<Rightarrow> False))"

section \<open>Properties\<close>

subsection \<open>Unfolding and frame lemmas\<close>

lemmas evaluation =
  evaluateStage_def getById_def listByWound_def updateStage_def newStage_def
  rule1_def rule2_def rule3_def rule4_def rule5_def daysSinceCreation_def
  noImprovement_def showsImprovement_def truthy_str_def truthy_num_def to_number_def
  all_requests_succeed_def plain_wound_def two_treatments_def Let_def

lemma evaluateStage_found:
  "getById c b woundId = Some w \<Longrightarrow>
     returned (evaluateStage c b woundId) = newStage w (listByWound c b woundId) (today c)"
  by (simp add: evaluateStage_def Let_def)

lemma evaluateStage_writes:
  "getById c b woundId = Some w \<Longrightarrow>
     stage_writes (evaluateStage c b woundId) =
       (if newStage w (listByWound c b woundId) (today c) \<noteq> clinical_stage w
        then [(woundId, newStage w (listByWound c b woundId) (today c))] else [])"
  by (simp add: evaluateStage_def Let_def)

text \<open>The stage write commutes with the selection of the rows of one wound.\<close>

lemma filter_map_stage:
  "filter (\<lambda>w. w_id w = woundId)
     (map (\<lambda>w. if w_id w = woundId then w\<lparr>clinical_stage := s\<rparr> else w) ws)
   = map (\<lambda>w. w\<lparr>clinical_stage := s\<rparr>) (filter (\<lambda>w. w_id w = woundId) ws)"
  by (induction ws) simp_all

lemma getById_updateStage:
  "getById c' (snd (updateStage c b woundId s)) woundId =
     (if wounds_update_error c then getById c' b woundId
      else map_option (\<lambda>w. w\<lparr>clinical_stage := s\<rparr>) (getById c' b woundId))"
proof (cases "filter (\<lambda>w. w_id w = woundId) (wounds_table b)")
  case Nil
  then show ?thesis by (simp add: getById_def updateStage_def filter_map_stage)
next
  case (Cons w ws)
  then show ?thesis
    by (cases ws) (simp_all add: getById_def updateStage_def filter_map_stage)
qed

lemma listByWound_updateStage:
  "listByWound c' (snd (updateStage c b woundId s)) woundId' = listByWound c' b woundId'"
  by (simp add: listByWound_def updateStage_def)

text \<open>No rule reads the stored stage.\<close>

lemma noImprovement_stage:
  "noImprovement (w\<lparr>clinical_stage := s\<rparr>) ts = noImprovement w ts"
  by (auto simp: noImprovement_def)

lemma showsImprovement_stage:
  "showsImprovement (w\<lparr>clinical_stage := s\<rparr>) ts = showsImprovement w ts"
  by (auto simp: showsImprovement_def)

lemma daysSinceCreation_stage:
  "daysSinceCreation (w\<lparr>clinical_stage := s\<rparr>) now = daysSinceCreation w now"
  by (simp add: daysSinceCreation_def)

lemma rules_stage:
  "rule1 (w\<lparr>clinical_stage := s\<rparr>) ts d = rule1 w ts d"
  "rule2 (w\<lparr>clinical_stage := s\<rparr>) ts d = rule2 w ts d"
  "rule3 (w\<lparr>clinical_stage := s\<rparr>) ts d = rule3 w ts d"
  "rule4 (w\<lparr>clinical_stage := s\<rparr>) ts d = rule4 w ts d"
  "rule5 (w\<lparr>clinical_stage := s\<rparr>) ts d = rule5 w ts d"
  by (simp_all add: rule1_def rule2_def rule3_def rule4_def rule5_def
        noImprovement_stage showsImprovement_stage)

lemma newStage_stage_update:
  "newStage (w\<lparr>clinical_stage := s\<rparr>) ts now = newStage w ts now
   \<or> (newStage w ts now = clinical_stage w \<and> newStage (w\<lparr>clinical_stage := s\<rparr>) ts now = s)"
  by (simp add: newStage_def Let_def rules_stage daysSinceCreation_stage)

subsection \<open>Infection signs and the rule order\<close>

text \<open>
  C1, as stated: a stored wound whose \<open>infection_signs\<close> is \<open>''si''\<close> evaluates to
  \<open>bajo_observacion\<close> whatever its treatment count and age. It does not: rule 1 is
  tested first. A wound registered an hour ago with no treatment evaluates to
  \<open>valoracion_inicial\<close>, also when it is infected and stored as \<open>bajo_observacion\<close>.
\<close>

theorem C1_counterexample:
  "getById (all_requests_succeed 3600000)
       \<lparr>wounds_table = [fresh_infected_wound], treatments_table = []\<rparr> ''w1''
     = Some fresh_infected_wound
   \<and> infection_signs fresh_infected_wound = Some ''si''
   \<and> returned (evaluateStage (all_requests_succeed 3600000)
         \<lparr>wounds_table = [fresh_infected_wound], treatments_table = []\<rparr> ''w1'')
     = Some ''valoracion_inicial''"
  by (simp add: evaluation fresh_infected_wound_def)

text \<open>
  C1, amended: for a stored wound whose \<open>infection_signs\<close> is \<open>''si''\<close>, a successful
  evaluation returns \<open>valoracion_inicial\<close> when the wound has no treatment and is less
  than one day old (rule 1), and \<open>bajo_observacion\<close> in every other case, whatever the
  pain scale, the measurements and the exudate.
\<close>

theorem C1_infection_signs_si:
  assumes "getById c b woundId = Some w"
      and "infection_signs w = Some ''si''"
  shows "returned (evaluateStage c b woundId) =
           (if length (listByWound c b woundId) = 0 \<and> daysSinceCreation w (today c) < 1
            then Some ''valoracion_inicial'' else Some ''bajo_observacion'')"
proof -
  let ?ts = "listByWound c b woundId" and ?d = "daysSinceCreation w (today c)"
  have "\<not> rule2 w ?ts ?d"
    using assms(2) by (simp add: rule2_def Let_def truthy_str_def)
  moreover have "rule3 w ?ts ?d"
    using assms(2) by (simp add: rule3_def Let_def)
  moreover have "rule1 w ?ts ?d = (length ?ts = 0 \<and> ?d < 1)"
    by (simp add: rule1_def Let_def)
  ultimately have "newStage w ?ts (today c) =
      (if length ?ts = 0 \<and> ?d < 1 then Some ''valoracion_inicial''
       else Some ''bajo_observacion'')"
    by (simp add: newStage_def Let_def)
  then show ?thesis
    by (simp add: evaluateStage_found [OF assms(1)])
qed

theorem C1_witness:
  "getById (all_requests_succeed 3600000)
       \<lparr>wounds_table = [fresh_infected_wound], treatments_table = two_treatments\<rparr> ''w1''
     = Some fresh_infected_wound
   \<and> infection_signs fresh_infected_wound = Some ''si''
   \<and> returned (evaluateStage (all_requests_succeed 3600000)
         \<lparr>wounds_table = [fresh_infected_wound], treatments_table = two_treatments\<rparr> ''w1'')
     = Some ''bajo_observacion''"
proof -
  let ?c = "all_requests_succeed 3600000"
  let ?b = "\<lparr>wounds_table = [fresh_infected_wound], treatments_table = two_treatments\<rparr>"
  have found: "getById ?c ?b ''w1'' = Some fresh_infected_wound"
    by (simp add: evaluation fresh_infected_wound_def)
  have si: "infection_signs fresh_infected_wound = Some ''si''"
    by (simp add: fresh_infected_wound_def)
  have count: "length (listByWound ?c ?b ''w1'') = 2"
    by (simp add: evaluation)
  from C1_infection_signs_si [OF found si] count
  have "returned (evaluateStage ?c ?b ''w1'') = Some ''bajo_observacion''"
    by simp
  with found si show ?thesis by simp
qed

subsection \<open>Severe pain and the rule order\<close>




subsection \<open>Rule 2 and wounds marked as not infected\<close>

text \<open>
  C3: a stored wound with one to three treatments whose \<open>infection_signs\<close> is not
  \<open>''si''\<close> evaluates to \<open>tratamiento_en_curso\<close>. Rule 2 tests \<^verbatim>\<open>!wound.infection_signs\<close>
  where rules 3 and 5 compare with \<^verbatim>\<open>'si'\<close>, so a wound whose field holds another
  non-empty string misses the rule. Here the field is \<open>''no''\<close>, the wound has two
  treatments, and the evaluation returns the stored \<open>valoracion_inicial\<close> and writes
  nothing.
\<close>

theorem C3_infection_signs_no:
  "getById (all_requests_succeed 3600000)
       \<lparr>wounds_table = [wound_marked_no], treatments_table = two_treatments\<rparr> ''w1''
     = Some wound_marked_no
   \<and> length (listByWound (all_requests_succeed 3600000)
         \<lparr>wounds_table = [wound_marked_no], treatments_table = two_treatments\<rparr> ''w1'') = 2
   \<and> infection_signs wound_marked_no = Some ''no''
   \<and> returned (evaluateStage (all_requests_succeed 3600000)
         \<lparr>wounds_table = [wound_marked_no], treatments_table = two_treatments\<rparr> ''w1'')
     = Some ''valoracion_inicial''
   \<and> stage_writes (evaluateStage (all_requests_succeed 3600000)
         \<lparr>wounds_table = [wound_marked_no], treatments_table = two_treatments\<rparr> ''w1'')
     = []"
  by (simp add: evaluation wound_marked_no_def)

text \<open>
  Rule 2 does give \<open>tratamiento_en_curso\<close> when the field is \<^verbatim>\<open>null\<close> or the empty
  string.
\<close>

lemma rule2_in_progress:
  assumes "getById c b woundId = Some w"
      and "1 \<le> length (listByWound c b woundId)" "length (listByWound c b woundId) \<le> 3"
      and "infection_signs w = None \<or> infection_signs w = Some []"
  shows "returned (evaluateStage c b woundId) = Some ''tratamiento_en_curso''"
proof -
  let ?ts = "listByWound c b woundId" and ?d = "daysSinceCreation w (today c)"
  have "\<not> rule1 w ?ts ?d"
    using assms(2) by (auto simp: rule1_def Let_def)
  moreover have "rule2 w ?ts ?d"
    using assms(2-4) by (auto simp: rule2_def Let_def truthy_str_def)
  ultimately show ?thesis
    by (simp add: evaluateStage_found [OF assms(1)] newStage_def Let_def)
qed

subsection \<open>The conditional write and its frame\<close>

text \<open>
  \<^verbatim>\<open>updateStage\<close> leaves the treatments alone, changes no column of a wound but
  \<open>clinical_stage\<close>, adds and removes no row, and leaves the rows of other wounds as
  they are.
\<close>

lemma updateStage_frame:
  "treatments_table (snd (updateStage c b woundId s)) = treatments_table b"
  "map (\<lambda>w. w\<lparr>clinical_stage := None\<rparr>) (wounds_table (snd (updateStage c b woundId s)))
     = map (\<lambda>w. w\<lparr>clinical_stage := None\<rparr>) (wounds_table b)"
  "filter (\<lambda>w. w_id w \<noteq> woundId) (wounds_table (snd (updateStage c b woundId s)))
     = filter (\<lambda>w. w_id w \<noteq> woundId) (wounds_table b)"
proof -
  show "treatments_table (snd (updateStage c b woundId s)) = treatments_table b"
    by (simp add: updateStage_def)
  have erase: "map (\<lambda>w. w\<lparr>clinical_stage := None\<rparr>)
          (map (\<lambda>w. if w_id w = woundId then w\<lparr>clinical_stage := s\<rparr> else w) ws)
        = map (\<lambda>w. w\<lparr>clinical_stage := None\<rparr>) ws" for ws
    by (induction ws) simp_all
  show "map (\<lambda>w. w\<lparr>clinical_stage := None\<rparr>)
          (wounds_table (snd (updateStage c b woundId s)))
        = map (\<lambda>w. w\<lparr>clinical_stage := None\<rparr>) (wounds_table b)"
    by (simp add: updateStage_def erase)
  have others: "filter (\<lambda>w. w_id w \<noteq> woundId)
          (map (\<lambda>w. if w_id w = woundId then w\<lparr>clinical_stage := s\<rparr> else w) ws)
        = filter (\<lambda>w. w_id w \<noteq> woundId) ws" for ws
    by (induction ws) simp_all
  show "filter (\<lambda>w. w_id w \<noteq> woundId)
          (wounds_table (snd (updateStage c b woundId s)))
        = filter (\<lambda>w. w_id w \<noteq> woundId) (wounds_table b)"
    by (simp add: updateStage_def others)
qed

lemma evaluateStage_backend:
  "backend_after (evaluateStage c b woundId) = b
   \<or> (\<exists>s. backend_after (evaluateStage c b woundId) = snd (updateStage c b woundId s))"
  by (auto simp: evaluateStage_def Let_def split: option.splits)

text \<open>
  C4: on every run that reads the wound, \<^verbatim>\<open>updateStage\<close> is called exactly when the
  computed stage differs from the stored \<open>clinical_stage\<close>, once, with the wound's id
  and the computed stage (and a run that does not find the wound calls it not at all).
  Whatever the run, the treatments table is unchanged; the wounds table keeps its rows,
  in their order, with every column but \<open>clinical_stage\<close> as it was; and the rows of
  other wounds are untouched.
\<close>

theorem C4_write_iff_stage_changed:
  "(case getById c b woundId of
      None \<Rightarrow> stage_writes (evaluateStage c b woundId) = []
    | Some w \<Rightarrow>
        stage_writes (evaluateStage c b woundId) =
          (if returned (evaluateStage c b woundId) \<noteq> clinical_stage w
           then [(woundId, returned (evaluateStage c b woundId))] else []))
   \<and> treatments_table (backend_after (evaluateStage c b woundId)) = treatments_table b
   \<and> map (\<lambda>w. w\<lparr>clinical_stage := None\<rparr>)
         (wounds_table (backend_after (evaluateStage c b woundId)))
       = map (\<lambda>w. w\<lparr>clinical_stage := None\<rparr>) (wounds_table b)
   \<and> filter (\<lambda>w. w_id w \<noteq> woundId)
         (wounds_table (backend_after (evaluateStage c b woundId)))
       = filter (\<lambda>w. w_id w \<noteq> woundId) (wounds_table b)"
proof (intro conjI)
  show "case getById c b woundId of
      None \<Rightarrow> stage_writes (evaluateStage c b woundId) = []
    | Some w \<Rightarrow>
        stage_writes (evaluateStage c b woundId) =
          (if returned (evaluateStage c b woundId) \<noteq> clinical_stage w
           then [(woundId, returned (evaluateStage c b woundId))] else [])"
    by (simp add: evaluateStage_def Let_def split: option.splits)
next
  show "treatments_table (backend_after (evaluateStage c b woundId)) = treatments_table b"
    using evaluateStage_backend [of c b woundId] by (auto simp: updateStage_frame)
next
  show "map (\<lambda>w. w\<lparr>clinical_stage := None\<rparr>)
         (wounds_table (backend_after (evaluateStage c b woundId)))
       = map (\<lambda>w. w\<lparr>clinical_stage := None\<rparr>) (wounds_table b)"
    using evaluateStage_backend [of c b woundId] by (auto simp: updateStage_frame)
next
  show "filter (\<lambda>w. w_id w \<noteq> woundId)
         (wounds_table (backend_after (evaluateStage c b woundId)))
       = filter (\<lambda>w. w_id w \<noteq> woundId) (wounds_table b)"
    using evaluateStage_backend [of c b woundId] by (auto simp: updateStage_frame)
qed

theorem C4_witness:
  "getById (all_requests_succeed 3600000)
       \<lparr>wounds_table = [plain_wound], treatments_table = two_treatments\<rparr> ''w1''
     = Some plain_wound
   \<and> returned (evaluateStage (all_requests_succeed 3600000)
         \<lparr>wounds_table = [plain_wound], treatments_table = two_treatments\<rparr> ''w1'')
     = Some ''tratamiento_en_curso''
   \<and> clinical_stage plain_wound = Some ''valoracion_inicial''
   \<and> stage_writes (evaluateStage (all_requests_succeed 3600000)
         \<lparr>wounds_table = [plain_wound], treatments_table = two_treatments\<rparr> ''w1'')
     = [(''w1'', Some ''tratamiento_en_curso'')]
   \<and> treatments_table (backend_after (evaluateStage (all_requests_succeed 3600000)
         \<lparr>wounds_table = [plain_wound], treatments_table = two_treatments\<rparr> ''w1''))
     = two_treatments"
proof -
  let ?c = "all_requests_succeed 3600000"
  let ?b = "\<lparr>wounds_table = [plain_wound], treatments_table = two_treatments\<rparr>"
  have found: "getById ?c ?b ''w1'' = Some plain_wound"
    by (simp add: evaluation)
  have stage: "returned (evaluateStage ?c ?b ''w1'') = Some ''tratamiento_en_curso''"
    by (simp add: evaluation)
  have stored: "clinical_stage plain_wound = Some ''valoracion_inicial''"
    by (simp add: plain_wound_def)
  from C4_write_iff_stage_changed [of ?c ?b "''w1''"] found stage stored
  show ?thesis by simp
qed

subsection \<open>Evaluating twice\<close>

text \<open>
  C5: when \<^verbatim>\<open>evaluateStage\<close> is called a second time at the same instant, under the
  same conditions, on the backend the first call left, and the first call's write (if
  any) was applied, the second call returns the stage the first returned, calls
  \<^verbatim>\<open>updateStage\<close> not at all and leaves the backend as it found it. This holds for
  every id, also one the wound read does not find.
\<close>

theorem C5_second_evaluation_is_noop:
  assumes applied: "\<not> wounds_update_error c"
  shows "returned (evaluateStage c (backend_after (evaluateStage c b woundId)) woundId)
           = returned (evaluateStage c b woundId)
         \<and> stage_writes (evaluateStage c (backend_after (evaluateStage c b woundId)) woundId)
           = []
         \<and> backend_after (evaluateStage c (backend_after (evaluateStage c b woundId)) woundId)
           = backend_after (evaluateStage c b woundId)"
proof (cases "getById c b woundId")
  case None
  then show ?thesis by (simp add: evaluateStage_def)
next
  case (Some w)
  let ?ts = "listByWound c b woundId"
  let ?st = "newStage w ?ts (today c)"
  show ?thesis
  proof (cases "?st = clinical_stage w")
    case True
    with Some show ?thesis by (simp add: evaluateStage_def Let_def)
  next
    case False
    let ?b1 = "snd (updateStage c b woundId ?st)"
    have first: "evaluateStage c b woundId =
        \<lparr>returned = ?st, backend_after = ?b1, stage_writes = [(woundId, ?st)]\<rparr>"
      using Some False by (simp add: evaluateStage_def Let_def)
    have found: "getById c ?b1 woundId = Some (w\<lparr>clinical_stage := ?st\<rparr>)"
      using Some applied by (simp add: getById_updateStage)
    have same: "newStage (w\<lparr>clinical_stage := ?st\<rparr>) ?ts (today c) = ?st"
      using newStage_stage_update [where w = w and s = ?st and ts = ?ts and now = "today c"] False
      by auto
    have second: "evaluateStage c ?b1 woundId =
        \<lparr>returned = ?st, backend_after = ?b1, stage_writes = []\<rparr>"
      using found same by (simp add: evaluateStage_def Let_def listByWound_updateStage)
    show ?thesis by (simp add: first second)
  qed
qed

theorem C5_witness:
  "\<not> wounds_update_error (all_requests_succeed 3600000)
   \<and> stage_writes (evaluateStage (all_requests_succeed 3600000)
         \<lparr>wounds_table = [plain_wound], treatments_table = two_treatments\<rparr> ''w1'')
       = [(''w1'', Some ''tratamiento_en_curso'')]
   \<and> returned (evaluateStage (all_requests_succeed 3600000)
         (backend_after (evaluateStage (all_requests_succeed 3600000)
            \<lparr>wounds_table = [plain_wound], treatments_table = two_treatments\<rparr> ''w1'')) ''w1'')
       = Some ''tratamiento_en_curso''
   \<and> stage_writes (evaluateStage (all_requests_succeed 3600000)
         (backend_after (evaluateStage (all_requests_succeed 3600000)
            \<lparr>wounds_table = [plain_wound], treatments_table = two_treatments\<rparr> ''w1'')) ''w1'')
       = []"
proof -
  let ?c = "all_requests_succeed 3600000"
  let ?b = "\<lparr>wounds_table = [plain_wound], treatments_table = two_treatments\<rparr>"
  have applied: "\<not> wounds_update_error ?c"
    by (simp add: all_requests_succeed_def)
  have first: "returned (evaluateStage ?c ?b ''w1'') = Some ''tratamiento_en_curso''"
    "stage_writes (evaluateStage ?c ?b ''w1'') = [(''w1'', Some ''tratamiento_en_curso'')]"
    by (simp_all add: evaluation)
  from C5_second_evaluation_is_noop [OF applied, of ?b "''w1''"] first applied
  show ?thesis by simp
qed

subsection \<open>Failures of the collaborators\<close>

text \<open>
  C6: when the wound read yields no wound, \<^verbatim>\<open>evaluateStage\<close> returns \<^verbatim>\<open>null\<close>,
  calls \<^verbatim>\<open>updateStage\<close> not at all and leaves the backend unchanged.
\<close>

theorem C6_wound_not_found:
  assumes "getById c b woundId = None"
  shows "returned (evaluateStage c b woundId) = None
         \<and> stage_writes (evaluateStage c b woundId) = []
         \<and> backend_after (evaluateStage c b woundId) = b"
  using assms by (simp add: evaluateStage_def)

theorem C6_witness:
  "getById (all_requests_succeed 3600000)
       \<lparr>wounds_table = [plain_wound], treatments_table = two_treatments\<rparr> ''w2'' = None
   \<and> returned (evaluateStage (all_requests_succeed 3600000)
         \<lparr>wounds_table = [plain_wound], treatments_table = two_treatments\<rparr> ''w2'') = None
   \<and> stage_writes (evaluateStage (all_requests_succeed 3600000)
         \<lparr>wounds_table = [plain_wound], treatments_table = two_treatments\<rparr> ''w2'') = []"
proof -
  let ?c = "all_requests_succeed 3600000"
  let ?b = "\<lparr>wounds_table = [plain_wound], treatments_table = two_treatments\<rparr>"
  have missing: "getById ?c ?b ''w2'' = None"
    by (simp add: evaluation)
  from C6_wound_not_found [OF missing] missing show ?thesis
    by simp
qed

text \<open>
  C7: when the treatment-list read fails, \<^verbatim>\<open>evaluateStage\<close> aborts, computes no
  stage from partial data and issues no stage write. The evaluator does abort when the
  wound read fails and when anything throws, but \<^verbatim>\<open>listByWound\<close> catches its own
  error and returns the empty array, so the failure never reaches it. Here a wound
  registered an hour ago, with two stored treatments and stored as
  \<open>tratamiento_en_curso\<close>, is evaluated while the treatment read fails: rule 1
  matches, \<open>valoracion_inicial\<close> is returned and written over the stored stage. The
  same evaluation with the read succeeding returns \<open>tratamiento_en_curso\<close> and writes
  nothing.
\<close>

theorem C7_failed_read_overwrites_stage:
  "treatments_select_error (treatments_read_fails 3600000)
   \<and> getById (treatments_read_fails 3600000)
        \<lparr>wounds_table = [treated_wound], treatments_table = two_treatments\<rparr> ''w1''
      = Some treated_wound
   \<and> returned (evaluateStage (treatments_read_fails 3600000)
        \<lparr>wounds_table = [treated_wound], treatments_table = two_treatments\<rparr> ''w1'')
      = Some ''valoracion_inicial''
   \<and> stage_writes (evaluateStage (treatments_read_fails 3600000)
        \<lparr>wounds_table = [treated_wound], treatments_table = two_treatments\<rparr> ''w1'')
      = [(''w1'', Some ''valoracion_inicial'')]
   \<and> map clinical_stage (wounds_table (backend_after (evaluateStage (treatments_read_fails 3600000)
        \<lparr>wounds_table = [treated_wound], treatments_table = two_treatments\<rparr> ''w1'')))
      = [Some ''valoracion_inicial'']
   \<and> returned (evaluateStage (all_requests_succeed 3600000)
        \<lparr>wounds_table = [treated_wound], treatments_table = two_treatments\<rparr> ''w1'')
      = Some ''tratamiento_en_curso''
   \<and> stage_writes (evaluateStage (all_requests_succeed 3600000)
        \<lparr>wounds_table = [treated_wound], treatments_table = two_treatments\<rparr> ''w1'')
      = []"
  by (simp add: evaluation treatments_read_fails_def treated_wound_def)

text \<open>
  How far the defect reaches: an evaluation whose treatment read fails cannot be told
  from one that reads an empty treatments table.
\<close>

lemma failed_treatment_read_as_empty:
  assumes "treatments_select_error c"
  shows "listByWound c b woundId = []
         \<and> returned (evaluateStage c b woundId)
             = returned (evaluateStage (c\<lparr>treatments_select_error := False\<rparr>)
                          (b\<lparr>treatments_table := []\<rparr>) woundId)
         \<and> stage_writes (evaluateStage c b woundId)
             = stage_writes (evaluateStage (c\<lparr>treatments_select_error := False\<rparr>)
                               (b\<lparr>treatments_table := []\<rparr>) woundId)
         \<and> wounds_table (backend_after (evaluateStage c b woundId))
             = wounds_table (backend_after (evaluateStage (c\<lparr>treatments_select_error := False\<rparr>)
                               (b\<lparr>treatments_table := []\<rparr>) woundId))"
proof -
  let ?c = "c\<lparr>treatments_select_error := False\<rparr>" and ?b = "b\<lparr>treatments_table := []\<rparr>"
  have ts: "listByWound c b woundId = []" "listByWound ?c ?b woundId = []"
    using assms by (simp_all add: listByWound_def)
  have w: "getById ?c ?b woundId = getById c b woundId"
    by (simp add: getById_def)
  have u: "wounds_table (snd (updateStage ?c ?b woundId s))
             = wounds_table (snd (updateStage c b woundId s))" for s
    by (simp add: updateStage_def)
  show ?thesis
    by (cases "getById c b woundId") (simp_all add: evaluateStage_def Let_def ts w u)
qed

text \<open>
  C8: when the wound is read, the stage write is issued and it fails,
  \<^verbatim>\<open>updateStage\<close> returns \<^verbatim>\<open>false\<close> and \<^verbatim>\<open>evaluateStage\<close> still returns the
  stage the rule cascade computed, which is not \<^verbatim>\<open>null\<close> and is the stage the same
  evaluation returns when the write succeeds; the backend is left unchanged.
\<close>

theorem C8_failed_write_still_returns_stage:
  assumes "getById c b woundId = Some w"
      and "wounds_update_error c"
      and "stage_writes (evaluateStage c b woundId) \<noteq> []"
  shows "fst (updateStage c b woundId (newStage w (listByWound c b woundId) (today c))) = False
         \<and> returned (evaluateStage c b woundId)
             = newStage w (listByWound c b woundId) (today c)
         \<and> returned (evaluateStage c b woundId) \<noteq> None
         \<and> returned (evaluateStage c b woundId)
             = returned (evaluateStage (c\<lparr>wounds_update_error := False\<rparr>) b woundId)
         \<and> backend_after (evaluateStage c b woundId) = b"
proof -
  let ?ts = "listByWound c b woundId"
  let ?st = "newStage w ?ts (today c)"
  have changed: "?st \<noteq> clinical_stage w"
    using assms(1,3) by (auto simp: evaluateStage_writes)
  then have "?st \<noteq> None"
    by (auto simp: newStage_def Let_def split: if_splits)
  moreover have "getById (c\<lparr>wounds_update_error := False\<rparr>) b woundId = Some w"
    using assms(1) by (simp add: getById_def)
  moreover have "listByWound (c\<lparr>wounds_update_error := False\<rparr>) b woundId = ?ts"
    by (simp add: listByWound_def)
  ultimately show ?thesis
    using assms(1,2) changed
    by (simp add: evaluateStage_def Let_def updateStage_def)
qed

theorem C8_witness:
  "getById (stage_write_fails 3600000)
       \<lparr>wounds_table = [plain_wound], treatments_table = two_treatments\<rparr> ''w1''
     = Some plain_wound
   \<and> wounds_update_error (stage_write_fails 3600000)
   \<and> stage_writes (evaluateStage (stage_write_fails 3600000)
         \<lparr>wounds_table = [plain_wound], treatments_table = two_treatments\<rparr> ''w1'')
     = [(''w1'', Some ''tratamiento_en_curso'')]
   \<and> returned (evaluateStage (stage_write_fails 3600000)
         \<lparr>wounds_table = [plain_wound], treatments_table = two_treatments\<rparr> ''w1'')
     = Some ''tratamiento_en_curso''
   \<and> backend_after (evaluateStage (stage_write_fails 3600000)
         \<lparr>wounds_table = [plain_wound], treatments_table = two_treatments\<rparr> ''w1'')
     = \<lparr>wounds_table = [plain_wound], treatments_table = two_treatments\<rparr>"
proof -
  let ?c = "stage_write_fails 3600000"
  let ?b = "\<lparr>wounds_table = [plain_wound], treatments_table = two_treatments\<rparr>"
  have found: "getById ?c ?b ''w1'' = Some plain_wound"
    by (simp add: evaluation stage_write_fails_def)
  have fails: "wounds_update_error ?c"
    by (simp add: stage_write_fails_def)
  have issued: "stage_writes (evaluateStage ?c ?b ''w1'') = [(''w1'', Some ''tratamiento_en_curso'')]"
    by (simp add: evaluation stage_write_fails_def)
  then have nonempty: "stage_writes (evaluateStage ?c ?b ''w1'') \<noteq> []"
    by simp
  have computed: "newStage plain_wound (listByWound ?c ?b ''w1'') (today ?c)
                    = Some ''tratamiento_en_curso''"
    by (simp add: evaluation stage_write_fails_def)
  from C8_failed_write_still_returns_stage [OF found fails nonempty] computed found fails issued
  show ?thesis by simp
qed

subsection \<open>Rule 5 and measurements of zero\<close>

text \<open>
  C9: a stored wound that matches none of rules 1 to 4, with both measurements present
  and less than 1, exudate \<open>escaso\<close>, a pain scale that is \<^verbatim>\<open>null\<close> or at most 2 and
  \<open>infection_signs\<close> other than \<open>''si''\<close>, evaluates to \<open>alta_clinica\<close>. Rule 5 tests
  the presence of a measurement by its truthiness, and 0 is falsy: the closed wound
  below, 0 cm by 0 cm, two days old and without treatments, matches none of rules 1 to
  4 and keeps its stored stage, where the same wound at 0.5 cm by 0.5 cm is discharged.
\<close>

theorem C9_closed_wound_not_discharged:
  "getById (all_requests_succeed 172800000)
       \<lparr>wounds_table = [closed_wound], treatments_table = []\<rparr> ''w1''
     = Some closed_wound
   \<and> \<not> rule1 closed_wound [] (daysSinceCreation closed_wound 172800000)
   \<and> \<not> rule2 closed_wound [] (daysSinceCreation closed_wound 172800000)
   \<and> \<not> rule3 closed_wound [] (daysSinceCreation closed_wound 172800000)
   \<and> \<not> rule4 closed_wound [] (daysSinceCreation closed_wound 172800000)
   \<and> length_cm closed_wound = Some 0 \<and> width_cm closed_wound = Some 0
   \<and> exudate_amount closed_wound = Some ''escaso''
   \<and> pain_scale closed_wound = Some 1
   \<and> infection_signs closed_wound = None
   \<and> returned (evaluateStage (all_requests_succeed 172800000)
         \<lparr>wounds_table = [closed_wound], treatments_table = []\<rparr> ''w1'')
     = Some ''evolucion_favorable''
   \<and> returned (evaluateStage (all_requests_succeed 172800000)
         \<lparr>wounds_table = [small_wound], treatments_table = []\<rparr> ''w1'')
     = Some ''alta_clinica''"
  by (simp add: evaluation closed_wound_def small_wound_def)

text \<open>Rule 5 does give \<open>alta_clinica\<close> when neither measurement is 0.\<close>

lemma rule5_discharge:
  assumes "getById c b woundId = Some w"
      and "\<not> rule1 w (listByWound c b woundId) (daysSinceCreation w (today c))"
      and "\<not> rule2 w (listByWound c b woundId) (daysSinceCreation w (today c))"
      and "\<not> rule3 w (listByWound c b woundId) (daysSinceCreation w (today c))"
      and "\<not> rule4 w (listByWound c b woundId) (daysSinceCreation w (today c))"
      and "length_cm w = Some l" "l \<noteq> 0" "l < 1"
      and "width_cm w = Some wd" "wd \<noteq> 0" "wd < 1"
      and "exudate_amount w = Some ''escaso''"
      and "pain_scale w = None \<or> (\<exists>p. pain_scale w = Some p \<and> p \<le> 2)"
      and "infection_signs w \<noteq> Some ''si''"
  shows "returned (evaluateStage c b woundId) = Some ''alta_clinica''"
proof -
  have "rule5 w (listByWound c b woundId) (daysSinceCreation w (today c))"
    using assms(6-14) by (auto simp: rule5_def truthy_num_def to_number_def)
  with assms(2-5) show ?thesis
    by (simp add: evaluateStage_found [OF assms(1)] newStage_def Let_def)
qed

subsection \<open>The no-improvement helper\<close>

text \<open>
  C10: \<^verbatim>\<open>_noImprovement\<close> is true exactly when the exudate is \<open>abundante\<close>, or the
  pain scale is greater than 6, or, the measurements being present, the length or the
  width is greater than 8. The helper tests presence by truthiness: for a wound 9 cm
  long whose width is recorded as 0 the specification's reading is true and the helper
  returns false.
\<close>

theorem C10_zero_width_hides_length:
  "length_cm long_narrow_wound = Some 9 \<and> width_cm long_narrow_wound = Some 0
   \<and> noImprovement_spec long_narrow_wound two_treatments
   \<and> \<not> noImprovement long_narrow_wound two_treatments"
  by (simp add: evaluation long_narrow_wound_def noImprovement_spec_def)

text \<open>
  The helper and the specification's reading agree on every wound none of whose
  measurements is 0, and the helper never holds where the reading does not.
\<close>

lemma noImprovement_spec_nonzero:
  assumes "length_cm w \<noteq> Some 0" and "width_cm w \<noteq> Some 0"
  shows "noImprovement w ts = noImprovement_spec w ts"
  using assms
  by (cases "pain_scale w"; cases "length_cm w"; cases "width_cm w")
     (auto simp: noImprovement_def noImprovement_spec_def truthy_num_def to_number_def)

lemma noImprovement_implies_spec:
  "noImprovement w ts \<Longrightarrow> noImprovement_spec w ts"
  by (cases "pain_scale w"; cases "length_cm w"; cases "width_cm w")
     (auto simp: noImprovement_def noImprovement_spec_def truthy_num_def to_number_def
           split: if_splits)

end
